theory Spec2Isabelle
  imports Main "HOL-Library.Word"
begin

unbundle bit_operations_syntax

section \<open>Machine types\<close>

text \<open>
  The element is C on an LP64 host: \<open>int\<close> (gint) is 32 bits wide and is read as two's
  complement with \<open>sint\<close>; \<open>gsize\<close>, \<open>unsigned long\<close> and \<open>guint64\<close> are 64 bits wide.
\<close>

type_synonym gint = "32 word"
type_synonym guint = "32 word"
type_synonym gsize = "64 word"
type_synonym guint64 = "64 word"
type_synonym guint8 = "8 word"

section \<open>The codec library interface (turbojpeg.h)\<close>

text \<open>The transform operations, in the order of the \<open>xop_types\<close> table of the element.\<close>

datatype TJXOP =
    TJXOP_NONE
  | TJXOP_HFLIP
  | TJXOP_VFLIP
  | TJXOP_TRANSPOSE
  | TJXOP_TRANSVERSE
  | TJXOP_ROT90
  | TJXOP_ROT180
  | TJXOP_ROT270

definition TJXOPT_TRIM :: gint where
  "TJXOPT_TRIM = 2"

definition TJFLAG_NOREALLOC :: gint where
  "TJFLAG_NOREALLOC = 1024"

record tjregion =
  r_x :: gint
  r_y :: gint
  r_w :: gint
  r_h :: gint

record tjtransform =
  xf_r :: tjregion
  xf_op :: TJXOP
  xf_options :: gint

text \<open>\<open>memset (&xform, 0, sizeof (tjtransform))\<close>: every field zero, the operation
  with value 0 being \<open>TJXOP_NONE\<close>.\<close>

definition tjtransform_zero :: tjtransform where
  "tjtransform_zero =
     \<lparr>xf_r = \<lparr>r_x = 0, r_y = 0, r_w = 0, r_h = 0\<rparr>, xf_op = TJXOP_NONE, xf_options = 0\<rparr>"

type_synonym tjhandle = nat

section \<open>The host framework interface (GStreamer)\<close>

datatype GstFlowReturn =
    GST_FLOW_OK
  | GST_FLOW_NOT_LINKED
  | GST_FLOW_FLUSHING
  | GST_FLOW_EOS
  | GST_FLOW_NOT_NEGOTIATED
  | GST_FLOW_ERROR
  | GST_FLOW_NOT_SUPPORTED

datatype GstMapFlags = GST_MAP_READ | GST_MAP_WRITE

text \<open>
  A memory block: the bytes the codec reads from it and its \<open>size\<close> field. The bytes
  of a freshly allocated block are not tracked (they are empty in the model).
\<close>

record GstMemory =
  mem_data :: "guint8 list"
  mem_size :: gsize

text \<open>A buffer: its timing and sequence fields and its memory blocks.\<close>

record GstBuffer =
  buf_pts :: guint64
  buf_dts :: guint64
  buf_duration :: guint64
  buf_offset :: guint64
  buf_offset_end :: guint64
  buf_memory :: "GstMemory list"

record GstMapInfo =
  info_data :: "guint8 list"
  info_size :: gsize

definition GST_CLOCK_TIME_NONE :: guint64 where
  "GST_CLOCK_TIME_NONE = - 1"

definition GST_BUFFER_OFFSET_NONE :: guint64 where
  "GST_BUFFER_OFFSET_NONE = - 1"

definition GST_BUFFER_COPY_FLAGS :: guint where
  "GST_BUFFER_COPY_FLAGS = 1"

definition GST_BUFFER_COPY_TIMESTAMPS :: guint where
  "GST_BUFFER_COPY_TIMESTAMPS = 2"

definition GST_BUFFER_COPY_META :: guint where
  "GST_BUFFER_COPY_META = 4"

definition GST_BUFFER_COPY_MEMORY :: guint where
  "GST_BUFFER_COPY_MEMORY = 8"

text \<open>\<open>gst_buffer_new\<close>: no memory, every timing and sequence field unset.\<close>

definition gst_buffer_new :: GstBuffer where
  "gst_buffer_new =
     \<lparr>buf_pts = GST_CLOCK_TIME_NONE, buf_dts = GST_CLOCK_TIME_NONE,
      buf_duration = GST_CLOCK_TIME_NONE, buf_offset = GST_BUFFER_OFFSET_NONE,
      buf_offset_end = GST_BUFFER_OFFSET_NONE, buf_memory = []\<rparr>"

text \<open>\<open>gst_buffer_append_memory\<close>: a NULL block is rejected and the buffer is left as
  it was.\<close>

fun gst_buffer_append_memory :: "GstBuffer \<Rightarrow> GstMemory option \<Rightarrow> GstBuffer" where
  "gst_buffer_append_memory buffer None = buffer"
| "gst_buffer_append_memory buffer (Some mem) =
     buffer\<lparr>buf_memory := buf_memory buffer @ [mem]\<rparr>"

fun memory_size :: "GstMemory list \<Rightarrow> gsize" where
  "memory_size [] = 0"
| "memory_size (m # ms) = mem_size m + memory_size ms"

definition gst_buffer_get_size :: "GstBuffer \<Rightarrow> gsize" where
  "gst_buffer_get_size buffer = memory_size (buf_memory buffer)"

text \<open>The view a successful \<open>gst_buffer_map\<close> fills in: all bytes and the total size.\<close>

definition map_info :: "GstBuffer \<Rightarrow> GstMapInfo" where
  "map_info buffer =
     \<lparr>info_data = concat (map mem_data (buf_memory buffer)),
      info_size = gst_buffer_get_size buffer\<rparr>"

text \<open>
  The memory of a region copy: blocks are skipped up to the offset, then shared until
  \<open>left\<close> bytes are covered; a block that is covered only in part is shared as a
  sub-region of that size.
\<close>

fun copy_memory :: "GstMemory list \<Rightarrow> gsize \<Rightarrow> gsize \<Rightarrow> GstMemory list" where
  "copy_memory [] skip left = []"
| "copy_memory (m # ms) skip left =
     (if left = 0 then []
      else if mem_size m \<le> skip then copy_memory ms (skip - mem_size m) left
      else
        (let tocopy = min (mem_size m - skip) left
         in (if tocopy < mem_size m
             then m\<lparr>mem_data := take (unat tocopy) (drop (unat skip) (mem_data m)),
                    mem_size := tocopy\<rparr>
             else m) # copy_memory ms 0 (left - tocopy)))"

text \<open>
  \<open>gst_buffer_copy_region\<close>: NULL when the region does not lie inside the source buffer
  (a size of \<open>-1\<close> means up to the end). The copy is a new buffer; with
  \<open>GST_BUFFER_COPY_TIMESTAMPS\<close> it takes pts, dts and offset of the SOURCE buffer when
  the region starts at 0, and duration and offset end as well when the region is the
  whole source; with \<open>GST_BUFFER_COPY_MEMORY\<close> it shares the source's memory.
  Buffer flags and metas are not part of the model.
\<close>

definition gst_buffer_copy_region ::
  "GstBuffer \<Rightarrow> guint \<Rightarrow> gsize \<Rightarrow> gsize \<Rightarrow> GstBuffer option" where
  "gst_buffer_copy_region buffer flags offset sz =
     (let bufsize = gst_buffer_get_size buffer
      in if bufsize < offset then None
         else
           (let size' = (if sz = - 1 then bufsize - offset else sz)
            in if bufsize < offset + size' then None
               else
                 (let copy0 = gst_buffer_new;
                      copy1 =
                        (if flags AND GST_BUFFER_COPY_TIMESTAMPS = 0 then copy0
                         else if offset = 0 then
                           (let c = copy0\<lparr>buf_pts := buf_pts buffer, buf_dts := buf_dts buffer,
                                           buf_offset := buf_offset buffer\<rparr>
                            in if size' = bufsize
                               then c\<lparr>buf_duration := buf_duration buffer,
                                      buf_offset_end := buf_offset_end buffer\<rparr>
                               else c)
                         else copy0);
                      copy2 =
                        (if flags AND GST_BUFFER_COPY_MEMORY = 0 then copy1
                         else copy1\<lparr>buf_memory := copy_memory (buf_memory buffer) offset size'\<rparr>)
                  in Some copy2)))"

text \<open>
  What the surroundings of the element answer during one call. Each field is the result of
  the library or host function of the same name, as a function of the arguments the
  element passes:
  \<^item> \<open>gst_buffer_map\<close>: whether mapping the buffer with the given flags succeeds;
  \<^item> \<open>tjInitDecompress\<close>, \<open>tjInitTransform\<close>: the handle, or NULL;
  \<^item> \<open>tjDecompressHeader3\<close>: the return code and the contents of \<open>width\<close>, \<open>height\<close>
    and \<open>jpegSubsamp\<close> after the call (they are 0 before it, and the library leaves them
    as they are where it does not write them);
  \<^item> \<open>tjBufSize\<close>: the worst-case size for a width, height and subsampling;
  \<^item> \<open>gst_allocator_alloc\<close>: whether a block of that size is obtained;
  \<^item> \<open>tjTransform\<close>: the return code and the contents of \<open>dstSizes[0]\<close> after the call,
    from the handle, the source bytes and size, \<open>dstSizes[0]\<close> before the call, the
    transform descriptor and the flags;
  \<^item> \<open>downstream\<close>: the flow result of the peer of the source pad for a buffer.
\<close>

record env =
  gst_buffer_map :: "GstBuffer \<Rightarrow> GstMapFlags \<Rightarrow> bool"
  tjInitDecompress :: "tjhandle option"
  tjInitTransform :: "tjhandle option"
  tjDecompressHeader3 :: "tjhandle option \<Rightarrow> guint8 list \<Rightarrow> gsize \<Rightarrow> gint \<times> gint \<times> gint \<times> gint"
  tjBufSize :: "gint \<Rightarrow> gint \<Rightarrow> gint \<Rightarrow> gsize"
  gst_allocator_alloc :: "gsize \<Rightarrow> bool"
  tjTransform ::
    "tjhandle option \<Rightarrow> guint8 list \<Rightarrow> gsize \<Rightarrow> gsize \<Rightarrow> tjtransform \<Rightarrow> gint \<Rightarrow> gint \<times> gsize"
  downstream :: "GstBuffer \<Rightarrow> GstFlowReturn"

text \<open>A block obtained from the allocator has the requested size.\<close>

definition allocator_alloc :: "env \<Rightarrow> gsize \<Rightarrow> GstMemory option" where
  "allocator_alloc e sz =
     (if gst_allocator_alloc e sz then Some \<lparr>mem_data = [], mem_size = sz\<rparr> else None)"

text \<open>\<open>gst_pad_push\<close>: a NULL buffer is rejected with \<open>GST_FLOW_ERROR\<close> and nothing
  reaches the peer; a buffer is handed to the peer, whose flow result is returned.\<close>

fun gst_pad_push :: "env \<Rightarrow> GstBuffer option \<Rightarrow> GstFlowReturn" where
  "gst_pad_push e None = GST_FLOW_ERROR"
| "gst_pad_push e (Some buffer) = downstream e buffer"

section \<open>The element\<close>

text \<open>
  The instance structure is declared in \<open>gstjpegtran.h\<close>; the fields are those the
  functions of \<open>gstjpegtran.c\<close> read and write. The two pads are left out: the sink pad
  is where the chain function is called, the source pad is where \<open>gst_pad_push\<close>
  hands buffers to the peer.
\<close>

record Gstjpegtran =
  xop :: TJXOP
  tjHandle :: "tjhandle option"
  tjInstance :: "tjhandle option"

definition PROP_0 :: guint where
  "PROP_0 = 0"

definition PROP_XOP :: guint where
  "PROP_XOP = 1"

definition DEFAULT_XOP :: TJXOP where
  "DEFAULT_XOP = TJXOP_NONE"

text \<open>The table of \<open>gst_jpegtran_xop_get_type\<close>: value and nick of each operation.\<close>

definition xop_types :: "(TJXOP \<times> string) list" where
  "xop_types =
     [(TJXOP_NONE, ''none''), (TJXOP_HFLIP, ''hflip''), (TJXOP_VFLIP, ''vflip''),
      (TJXOP_TRANSPOSE, ''transpose''), (TJXOP_TRANSVERSE, ''transverse''),
      (TJXOP_ROT90, ''rot90''), (TJXOP_ROT180, ''rot180''), (TJXOP_ROT270, ''rot270'')]"

text \<open>
  What a call does to its surroundings, in program order: maps (with their outcome),
  unmaps and releases of the input and the output buffer, element errors posted,
  allocator requests (with their outcome), transform calls (descriptor, flags, size of
  the output region, and what the library returned) and calls of \<open>gst_pad_push\<close>.
\<close>

datatype buf_id = InBuf | OutBuf

datatype event =
    BufferMap buf_id GstMapFlags bool
  | BufferUnmap buf_id
  | BufferUnref buf_id
  | ElementError string
  | WarnInvalidPropertyId guint
  | AllocatorAlloc gsize bool
  | TjTransform tjtransform gint gsize "gint \<times> gsize"
  | PadPush "GstBuffer option"

definition gst_jpegtran_init :: "env \<Rightarrow> Gstjpegtran \<times> event list" where
  "gst_jpegtran_init e =
     (let h = tjInitDecompress e;
          ev1 = (if h = None then [ElementError ''cannot init decompressor''] else []);
          i = tjInitTransform e;
          ev2 = (if i = None then [ElementError ''cannot init transform''] else [])
      in (\<lparr>xop = DEFAULT_XOP, tjHandle = h, tjInstance = i\<rparr>, ev1 @ ev2))"

definition gst_jpegtran_set_property ::
  "Gstjpegtran \<Rightarrow> guint \<Rightarrow> TJXOP \<Rightarrow> Gstjpegtran \<times> event list" where
  "gst_jpegtran_set_property self prop_id v =
     (if prop_id = PROP_XOP then (self\<lparr>xop := v\<rparr>, [])
      else (self, [WarnInvalidPropertyId prop_id]))"

definition gst_jpegtran_get_property ::
  "Gstjpegtran \<Rightarrow> guint \<Rightarrow> TJXOP option \<times> event list" where
  "gst_jpegtran_get_property self prop_id =
     (if prop_id = PROP_XOP then (Some (xop self), [])
      else (None, [WarnInvalidPropertyId prop_id]))"

text \<open>
  The chain function: the flow result and what the call did. The only returns are the two
  failed maps and the end of the function; a failed header probe and a failed transform
  post an element error and fall through. The two log statements have no effect and are
  left out.
\<close>

definition gst_jpegtran_chain ::
  "env \<Rightarrow> Gstjpegtran \<Rightarrow> GstBuffer \<Rightarrow> GstFlowReturn \<times> event list" where
  "gst_jpegtran_chain e self inbuf =
     (if \<not> gst_buffer_map e inbuf GST_MAP_READ then
        (GST_FLOW_ERROR,
         [BufferMap InBuf GST_MAP_READ False, ElementError ''Unable to map memory'',
          BufferUnref InBuf])
      else
        (let in_info = map_info inbuf
         in case tjDecompressHeader3 e (tjHandle self) (info_data in_info) (info_size in_info)
            of (rc, width, height, jpegSubsamp) \<Rightarrow>
          (let ev_hdr = (if rc \<noteq> 0 then [ElementError ''cannot decompress header''] else []);
               xform0 = tjtransform_zero\<lparr>xf_op := xop self\<rparr>;
               xform = xform0\<lparr>xf_options := xf_options xform0 OR TJXOPT_TRIM\<rparr>;
               flags = TJFLAG_NOREALLOC;
               capacity = tjBufSize e width height jpegSubsamp;
               mem = allocator_alloc e capacity;
               outbuf = gst_buffer_append_memory gst_buffer_new mem;
               ev_alloc = [AllocatorAlloc capacity (mem \<noteq> None)]
           in if \<not> gst_buffer_map e outbuf GST_MAP_WRITE then
                (GST_FLOW_ERROR,
                 [BufferMap InBuf GST_MAP_READ True] @ ev_hdr @ ev_alloc @
                 [BufferMap OutBuf GST_MAP_WRITE False, ElementError ''Unable to map memory'',
                  BufferUnref OutBuf])
              else
                (let out_info = map_info outbuf;
                     res = tjTransform e (tjInstance self) (info_data in_info)
                             (info_size in_info) (info_size out_info) xform flags;
                     dstSize = snd res;
                     ev_xf = (if sint (fst res) < 0 then [ElementError ''tjTransform failed'']
                              else []);
                     trimmedbuf =
                       gst_buffer_copy_region outbuf
                         (GST_BUFFER_COPY_FLAGS OR GST_BUFFER_COPY_TIMESTAMPS OR
                          GST_BUFFER_COPY_META OR GST_BUFFER_COPY_MEMORY)
                         0 dstSize;
                     ret = gst_pad_push e trimmedbuf
                 in (ret,
                     [BufferMap InBuf GST_MAP_READ True] @ ev_hdr @ ev_alloc @
                     [BufferMap OutBuf GST_MAP_WRITE True,
                      TjTransform xform flags (info_size out_info) res] @ ev_xf @
                     [BufferUnmap InBuf, BufferUnmap OutBuf, PadPush trimmedbuf,
                      BufferUnref InBuf, BufferUnref OutBuf])))))"

section \<open>Reading a trace\<close>

text \<open>The buffers that reached the downstream peer, in order.\<close>

fun forwarded :: "event list \<Rightarrow> GstBuffer list" where
  "forwarded [] = []"
| "forwarded (PadPush (Some b) # es) = b # forwarded es"
| "forwarded (ev # es) = forwarded es"



text \<open>The calls of \<open>tjTransform\<close>: descriptor, flags and size of the output region.\<close>

fun transform_calls :: "event list \<Rightarrow> (tjtransform \<times> gint \<times> gsize) list" where
  "transform_calls [] = []"
| "transform_calls (TjTransform xf fl n res # es) = (xf, fl, n) # transform_calls es"
| "transform_calls (ev # es) = transform_calls es"

text \<open>The element errors posted, in order.\<close>

fun element_errors :: "event list \<Rightarrow> string list" where
  "element_errors [] = []"
| "element_errors (ElementError msg # es) = msg # element_errors es"
| "element_errors (ev # es) = element_errors es"

text \<open>How often a buffer is released.\<close>

fun unref_count :: "buf_id \<Rightarrow> event list \<Rightarrow> nat" where
  "unref_count b [] = 0"
| "unref_count b (BufferUnref b' # es) = (if b' = b then 1 else 0) + unref_count b es"
| "unref_count b (ev # es) = unref_count b es"

text \<open>The buffers that are mapped: a successful map adds one, an unmap removes it.\<close>

fun track_map :: "event \<Rightarrow> buf_id list \<Rightarrow> buf_id list" where
  "track_map (BufferMap b fl ok) m = (if ok then m @ [b] else m)"
| "track_map (BufferUnmap b) m = remove1 b m"
| "track_map ev m = m"

fun mapped_after :: "buf_id list \<Rightarrow> event list \<Rightarrow> buf_id list" where
  "mapped_after m [] = m"
| "mapped_after m (ev # es) = mapped_after (track_map ev m) es"

text \<open>For each call of \<open>gst_pad_push\<close>, the buffers that are mapped at that moment.\<close>

fun mapped_at_pushes :: "buf_id list \<Rightarrow> event list \<Rightarrow> buf_id list list" where
  "mapped_at_pushes m [] = []"
| "mapped_at_pushes m (PadPush b # es) = m # mapped_at_pushes m es"
| "mapped_at_pushes m (ev # es) = mapped_at_pushes (track_map ev m) es"

text \<open>The buffers unmapped before the first call of \<open>gst_pad_push\<close>, in order.\<close>

fun closed_before_push :: "event list \<Rightarrow> buf_id list" where
  "closed_before_push [] = []"
| "closed_before_push (PadPush b # es) = []"
| "closed_before_push (BufferUnmap b # es) = b # closed_before_push es"
| "closed_before_push (ev # es) = closed_before_push es"

section \<open>A sample environment and sample buffers\<close>

text \<open>
  The worst-case size as libturbojpeg computes it: \<open>-1\<close> for a width or height below 1
  or an unknown subsampling, else the padded area times 2 plus the chroma factor, plus
  2048.
\<close>

definition sample_tjBufSize :: "gint \<Rightarrow> gint \<Rightarrow> gint \<Rightarrow> gsize" where
  "sample_tjBufSize width height jpegSubsamp =
     (if 1 \<le> sint width \<and> 1 \<le> sint height \<and> 0 \<le> sint jpegSubsamp \<and> sint jpegSubsamp < 6 then
        (let mcuw = [8, 16, 16, 8, 8, 32] ! nat (sint jpegSubsamp);
             mcuh = [8, 8, 16, 8, 16, 8] ! nat (sint jpegSubsamp);
             chromasf = (if jpegSubsamp = 3 then 0 else 4 * 64 div (mcuw * mcuh));
             pw = ((sint width + mcuw - 1) div mcuw) * mcuw;
             ph = ((sint height + mcuh - 1) div mcuh) * mcuh
         in word_of_int (pw * ph * (2 + chromasf) + 2048))
      else - 1)"

text \<open>A buffer is taken for a JPEG image when it has at least four bytes and starts with
  the SOI marker.\<close>

definition looks_like_jpeg :: "guint8 list \<Rightarrow> bool" where
  "looks_like_jpeg bytes = (4 \<le> length bytes \<and> take 2 bytes = [0xFF, 0xD8])"

text \<open>
  Every map succeeds; both handles exist; the header of a JPEG-looking buffer is
  640x480 with 4:2:0 subsampling (code 2), any other buffer fails and leaves the
  geometry at 0; the allocator serves up to 4 GiB; the transform of a JPEG-looking
  source that fits the output region reports the source's size, any other call fails
  and leaves the size as it was; downstream accepts every buffer.
\<close>

definition sample_env :: env where
  "sample_env =
     \<lparr>gst_buffer_map = (\<lambda>buffer flags. True),
      tjInitDecompress = Some 1,
      tjInitTransform = Some 2,
      tjDecompressHeader3 =
        (\<lambda>handle bytes n. if looks_like_jpeg bytes then (0, 640, 480, 2) else (- 1, 0, 0, 0)),
      tjBufSize = sample_tjBufSize,
      gst_allocator_alloc = (\<lambda>n. n \<le> 4294967296),
      tjTransform =
        (\<lambda>handle bytes n dstSize xform flags.
           if looks_like_jpeg bytes \<and> n \<le> dstSize then (0, n) else (- 1, dstSize)),
      downstream = (\<lambda>buffer. GST_FLOW_OK)\<rparr>"

definition sample_filter :: Gstjpegtran where
  "sample_filter = fst (gst_jpegtran_init sample_env)"

text \<open>A six-byte buffer that starts like a JPEG image, with timestamps.\<close>

definition jpeg_buf :: GstBuffer where
  "jpeg_buf =
     \<lparr>buf_pts = 1000, buf_dts = 1000, buf_duration = 40, buf_offset = 7, buf_offset_end = 8,
      buf_memory = [\<lparr>mem_data = [0xFF, 0xD8, 0xFF, 0xE0, 0x00, 0x10], mem_size = 6\<rparr>]\<rparr>"

text \<open>A truncated buffer of three bytes.\<close>

definition short_buf :: GstBuffer where
  "short_buf =
     \<lparr>buf_pts = 1000, buf_dts = 1000, buf_duration = 40, buf_offset = 7, buf_offset_end = 8,
      buf_memory = [\<lparr>mem_data = [0xFF, 0xD8, 0xFF], mem_size = 3\<rparr>]\<rparr>"

text \<open>The sample environment with a transform that fails on every call and leaves the
  size as it was.\<close>

definition failing_transform_env :: env where
  "failing_transform_env =
     sample_env\<lparr>tjTransform := (\<lambda>handle bytes n dstSize xform flags. (- 1, dstSize))\<rparr>"

text \<open>The sample environment where mapping for writing fails.\<close>

definition out_map_failing_env :: env where
  "out_map_failing_env =
     sample_env\<lparr>gst_buffer_map := (\<lambda>buffer flags. flags = GST_MAP_READ)\<rparr>"

text \<open>The sample environment with an exhausted allocator.\<close>

definition exhausted_env :: env where
  "exhausted_env = sample_env\<lparr>gst_allocator_alloc := (\<lambda>n. False)\<rparr>"



section \<open>The paths through the chain function\<close>

lemmas sample_defs =
  sample_env_def sample_filter_def gst_jpegtran_init_def DEFAULT_XOP_def
  jpeg_buf_def short_buf_def looks_like_jpeg_def sample_tjBufSize_def

lemmas model_defs =
  gst_jpegtran_chain_def Let_def allocator_alloc_def tjtransform_zero_def map_info_def
  gst_buffer_get_size_def gst_buffer_copy_region_def gst_buffer_new_def
  GST_BUFFER_COPY_FLAGS_def GST_BUFFER_COPY_TIMESTAMPS_def GST_BUFFER_COPY_META_def
  GST_BUFFER_COPY_MEMORY_def GST_CLOCK_TIME_NONE_def GST_BUFFER_OFFSET_NONE_def
  TJXOPT_TRIM_def TJFLAG_NOREALLOC_def
  word_le_nat_alt unsigned_minus_1_eq_mask mask_eq_exp_minus_1

text \<open>The input buffer cannot be mapped: an error is posted, the input is released and the
  call returns \<open>GST_FLOW_ERROR\<close>.\<close>

lemma chain_in_map_failed:
  assumes "\<not> gst_buffer_map e inbuf GST_MAP_READ"
  shows "gst_jpegtran_chain e self inbuf =
           (GST_FLOW_ERROR,
            [BufferMap InBuf GST_MAP_READ False, ElementError ''Unable to map memory'',
             BufferUnref InBuf])"
  using assms by (simp add: gst_jpegtran_chain_def)

text \<open>The output buffer cannot be mapped: an error is posted, the output buffer is
  released and the call returns \<open>GST_FLOW_ERROR\<close>.\<close>

lemma chain_out_map_failed:
  assumes "gst_buffer_map e inbuf GST_MAP_READ"
    and "tjDecompressHeader3 e (tjHandle self) (info_data (map_info inbuf))
           (info_size (map_info inbuf)) = (rc, width, height, jpegSubsamp)"
    and "\<not> gst_buffer_map e
             (gst_buffer_append_memory gst_buffer_new
                (allocator_alloc e (tjBufSize e width height jpegSubsamp)))
             GST_MAP_WRITE"
  shows "gst_jpegtran_chain e self inbuf =
           (GST_FLOW_ERROR,
            [BufferMap InBuf GST_MAP_READ True] @
            (if rc \<noteq> 0 then [ElementError ''cannot decompress header''] else []) @
            [AllocatorAlloc (tjBufSize e width height jpegSubsamp)
               (gst_allocator_alloc e (tjBufSize e width height jpegSubsamp)),
             BufferMap OutBuf GST_MAP_WRITE False, ElementError ''Unable to map memory'',
             BufferUnref OutBuf])"
  using assms by (simp add: gst_jpegtran_chain_def Let_def allocator_alloc_def)


text \<open>
  What each path leaves behind: the input buffer is unmapped and released once on the
  path where it cannot be mapped and on the path through the push; on the path where the
  output buffer cannot be mapped it stays mapped and is not released.
\<close>

lemma release_when_input_map_fails:
  assumes "\<not> gst_buffer_map e inbuf GST_MAP_READ"
  shows "mapped_after [] (snd (gst_jpegtran_chain e self inbuf)) = [] \<and>
         unref_count InBuf (snd (gst_jpegtran_chain e self inbuf)) = 1 \<and>
         unref_count OutBuf (snd (gst_jpegtran_chain e self inbuf)) = 0"
  by (simp add: chain_in_map_failed [OF assms])

lemma release_when_pushed:
  assumes "gst_buffer_map e inbuf GST_MAP_READ"
    and "tjDecompressHeader3 e (tjHandle self) (info_data (map_info inbuf))
           (info_size (map_info inbuf)) = (rc, width, height, jpegSubsamp)"
    and "gst_buffer_map e
           (gst_buffer_append_memory gst_buffer_new
              (allocator_alloc e (tjBufSize e width height jpegSubsamp)))
           GST_MAP_WRITE"
  shows "mapped_after [] (snd (gst_jpegtran_chain e self inbuf)) = [] \<and>
         unref_count InBuf (snd (gst_jpegtran_chain e self inbuf)) = 1 \<and>
         unref_count OutBuf (snd (gst_jpegtran_chain e self inbuf)) = 1"
  using assms
  by (simp add: gst_jpegtran_chain_def Let_def allocator_alloc_def)

lemma leak_when_output_map_fails:
  assumes "gst_buffer_map e inbuf GST_MAP_READ"
    and "tjDecompressHeader3 e (tjHandle self) (info_data (map_info inbuf))
           (info_size (map_info inbuf)) = (rc, width, height, jpegSubsamp)"
    and "\<not> gst_buffer_map e
             (gst_buffer_append_memory gst_buffer_new
                (allocator_alloc e (tjBufSize e width height jpegSubsamp)))
             GST_MAP_WRITE"
  shows "mapped_after [] (snd (gst_jpegtran_chain e self inbuf)) = [InBuf] \<and>
         unref_count InBuf (snd (gst_jpegtran_chain e self inbuf)) = 0 \<and>
         unref_count OutBuf (snd (gst_jpegtran_chain e self inbuf)) = 1"
  by (simp add: chain_out_map_failed [OF assms])

section \<open>Region copies of the output buffer\<close>






section \<open>The claims\<close>

text \<open>
  C1. Claimed: an input buffer whose header cannot be parsed yields the failure outcome,
  later steps are skipped and no buffer is forwarded. The chain function posts the
  error \<open>cannot decompress header\<close> and goes on (the branch ends in a TODO): for the
  truncated three-byte buffer the geometry stays 0, the size \<open>tjBufSize\<close> gives is
  \<open>-1\<close>, the allocator does not serve it, the transform is called on an empty output
  region and fails, and an empty buffer is pushed downstream; the call returns the peer's
  \<open>GST_FLOW_OK\<close>.
\<close>

theorem header_failure_still_forwards: 
  "gst_jpegtran_chain sample_env sample_filter short_buf =
     (GST_FLOW_OK,
      [BufferMap InBuf GST_MAP_READ True,
       ElementError ''cannot decompress header'',
       AllocatorAlloc (- 1) False,
       BufferMap OutBuf GST_MAP_WRITE True,
       TjTransform \<lparr>xf_r = \<lparr>r_x = 0, r_y = 0, r_w = 0, r_h = 0\<rparr>, xf_op = TJXOP_NONE,
                     xf_options = 2\<rparr> 1024 0 (- 1, 0),
       ElementError ''tjTransform failed'',
       BufferUnmap InBuf, BufferUnmap OutBuf,
       PadPush (Some gst_buffer_new),
       BufferUnref InBuf, BufferUnref OutBuf])"
  by (simp add: sample_defs model_defs)

text \<open>
  C2. Claimed: when the transform fails, the stage fails, the output buffer is released
  without being forwarded and no partial output goes downstream. The chain function
  posts the error \<open>tjTransform failed\<close> and goes on (the branch ends in a TODO): the
  output buffer is trimmed to the size left in \<open>dstSizes[0]\<close> and pushed, and the call
  returns the peer's \<open>GST_FLOW_OK\<close>.
\<close>

theorem transform_failure_still_forwards:
  "gst_jpegtran_chain failing_transform_env sample_filter jpeg_buf =
     (GST_FLOW_OK,
      [BufferMap InBuf GST_MAP_READ True,
       AllocatorAlloc 923648 True,
       BufferMap OutBuf GST_MAP_WRITE True,
       TjTransform \<lparr>xf_r = \<lparr>r_x = 0, r_y = 0, r_w = 0, r_h = 0\<rparr>, xf_op = TJXOP_NONE,
                     xf_options = 2\<rparr> 1024 923648 (- 1, 923648),
       ElementError ''tjTransform failed'',
       BufferUnmap InBuf, BufferUnmap OutBuf,
       PadPush (Some (gst_buffer_new\<lparr>buf_memory := [\<lparr>mem_data = [], mem_size = 923648\<rparr>]\<rparr>)),
       BufferUnref InBuf, BufferUnref OutBuf])"
  by (simp add: failing_transform_env_def sample_defs model_defs)

text \<open>
  C3. Claimed: on every exit path every mapped buffer is unmapped and the input buffer
  is released exactly once. On the path where the output buffer cannot be mapped the
  chain function releases the output buffer and returns (after a TODO): the input
  buffer is still mapped and is never released.
\<close>

theorem output_map_failure_leaks_input:
  "gst_jpegtran_chain out_map_failing_env sample_filter jpeg_buf =
     (GST_FLOW_ERROR,
      [BufferMap InBuf GST_MAP_READ True,
       AllocatorAlloc 923648 True,
       BufferMap OutBuf GST_MAP_WRITE False,
       ElementError ''Unable to map memory'',
       BufferUnref OutBuf]) \<and>
   mapped_after [] (snd (gst_jpegtran_chain out_map_failing_env sample_filter jpeg_buf)) = [InBuf] \<and>
   unref_count InBuf (snd (gst_jpegtran_chain out_map_failing_env sample_filter jpeg_buf)) = 0"
  by (simp add: out_map_failing_env_def sample_defs model_defs)

text \<open>
  C4. Claimed: the buffer handed downstream carries the timestamps of the input buffer.
  The trimmed buffer is a region copy of the OUTPUT buffer, which is new and has no
  timestamps: for an input with presentation time 1000 the forwarded buffer has
  \<open>GST_CLOCK_TIME_NONE\<close>.
\<close>

theorem forwarded_timestamps_not_from_input:
  "fst (gst_jpegtran_chain sample_env sample_filter jpeg_buf) = GST_FLOW_OK \<and>
   buf_pts jpeg_buf = 1000 \<and>
   map buf_pts (forwarded (snd (gst_jpegtran_chain sample_env sample_filter jpeg_buf))) =
     [GST_CLOCK_TIME_NONE] \<and>
   GST_CLOCK_TIME_NONE \<noteq> buf_pts jpeg_buf"
  by (simp add: sample_defs model_defs)

text \<open>
  C5. Claimed: when the output buffer cannot be allocated, the stage fails, the input is
  released and nothing is forwarded. The chain function never looks at the result of
  \<open>gst_allocator_alloc\<close>: with an exhausted allocator the output buffer has no
  memory, the transform is called on an empty region and fails, and an empty buffer is
  pushed downstream; the call returns the peer's \<open>GST_FLOW_OK\<close>.
\<close>

theorem allocation_failure_still_forwards:
  "gst_jpegtran_chain exhausted_env sample_filter jpeg_buf =
     (GST_FLOW_OK,
      [BufferMap InBuf GST_MAP_READ True,
       AllocatorAlloc 923648 False,
       BufferMap OutBuf GST_MAP_WRITE True,
       TjTransform \<lparr>xf_r = \<lparr>r_x = 0, r_y = 0, r_w = 0, r_h = 0\<rparr>, xf_op = TJXOP_NONE,
                     xf_options = 2\<rparr> 1024 0 (- 1, 0),
       ElementError ''tjTransform failed'',
       BufferUnmap InBuf, BufferUnmap OutBuf,
       PadPush (Some gst_buffer_new),
       BufferUnref InBuf, BufferUnref OutBuf])"
  by (simp add: exhausted_env_def sample_defs model_defs)







text \<open>
  C8. At every call of \<open>gst_pad_push\<close> no buffer is mapped; and when both buffers
  were mapped, there is one such call, after the input and the output buffer have been
  unmapped.
\<close>

theorem no_push_while_mapped:
  "set (mapped_at_pushes [] (snd (gst_jpegtran_chain e self inbuf))) \<subseteq> {[]} \<and>
   (gst_buffer_map e inbuf GST_MAP_READ \<longrightarrow>
    tjDecompressHeader3 e (tjHandle self) (info_data (map_info inbuf))
      (info_size (map_info inbuf)) = (rc, width, height, jpegSubsamp) \<longrightarrow>
    gst_buffer_map e
      (gst_buffer_append_memory gst_buffer_new
         (allocator_alloc e (tjBufSize e width height jpegSubsamp)))
      GST_MAP_WRITE \<longrightarrow>
    mapped_at_pushes [] (snd (gst_jpegtran_chain e self inbuf)) = [[]] \<and>
    closed_before_push (snd (gst_jpegtran_chain e self inbuf)) = [InBuf, OutBuf])"
  by (simp add: gst_jpegtran_chain_def Let_def allocator_alloc_def split: prod.splits)

text \<open>
  The sample run: both buffers are mapped, and unmapped before the push.
\<close>

theorem no_push_while_mapped_witness:
  "gst_buffer_map sample_env jpeg_buf GST_MAP_READ \<and>
   tjDecompressHeader3 sample_env (tjHandle sample_filter) (info_data (map_info jpeg_buf))
     (info_size (map_info jpeg_buf)) = (0, 640, 480, 2) \<and>
   gst_buffer_map sample_env
     (gst_buffer_append_memory gst_buffer_new
        (allocator_alloc sample_env (tjBufSize sample_env 640 480 2)))
     GST_MAP_WRITE \<and>
   mapped_at_pushes [] (snd (gst_jpegtran_chain sample_env sample_filter jpeg_buf)) = [[]] \<and>
   closed_before_push (snd (gst_jpegtran_chain sample_env sample_filter jpeg_buf)) =
     [InBuf, OutBuf]"
proof -
  have m: "gst_buffer_map sample_env jpeg_buf GST_MAP_READ"
    by (simp add: sample_env_def)
  have h: "tjDecompressHeader3 sample_env (tjHandle sample_filter) (info_data (map_info jpeg_buf))
     (info_size (map_info jpeg_buf)) = (0, 640, 480, 2)"
    by (simp add: sample_defs map_info_def)
  have w: "gst_buffer_map sample_env
     (gst_buffer_append_memory gst_buffer_new
        (allocator_alloc sample_env (tjBufSize sample_env 640 480 2)))
     GST_MAP_WRITE"
    by (simp add: sample_env_def)
  show ?thesis
    using m h w no_push_while_mapped [of sample_env sample_filter jpeg_buf 0 640 480 2] by simp
qed

text \<open>
  C9. A new element has the operation none; every operation is one of the eight of the
  table; reading the property after setting it to \<open>v\<close> gives \<open>v\<close>; and the
  transform of the next buffer that reaches it is called with \<open>v\<close>.
\<close>

theorem xop_property_roundtrip:
  "xop (fst (gst_jpegtran_init e)) = TJXOP_NONE \<and>
   v \<in> set (map fst xop_types) \<and>
   fst (gst_jpegtran_get_property (fst (gst_jpegtran_set_property self PROP_XOP v)) PROP_XOP) =
     Some v \<and>
   (gst_buffer_map e inbuf GST_MAP_READ \<longrightarrow>
    tjDecompressHeader3 e (tjHandle self) (info_data (map_info inbuf))
      (info_size (map_info inbuf)) = (rc, width, height, jpegSubsamp) \<longrightarrow>
    gst_buffer_map e
      (gst_buffer_append_memory gst_buffer_new
         (allocator_alloc e (tjBufSize e width height jpegSubsamp)))
      GST_MAP_WRITE \<longrightarrow>
    map (\<lambda>c. xf_op (fst c))
      (transform_calls
         (snd (gst_jpegtran_chain e (fst (gst_jpegtran_set_property self PROP_XOP v)) inbuf))) =
      [v])"
proof -
  have init: "xop (fst (gst_jpegtran_init e)) = TJXOP_NONE"
    by (simp add: gst_jpegtran_init_def Let_def DEFAULT_XOP_def)
  have known: "v \<in> set (map fst xop_types)"
    by (cases v) (simp_all add: xop_types_def)
  have getset: "fst (gst_jpegtran_get_property (fst (gst_jpegtran_set_property self PROP_XOP v)) PROP_XOP) =
     Some v"
    by (simp add: gst_jpegtran_get_property_def gst_jpegtran_set_property_def)
  have used: "gst_buffer_map e inbuf GST_MAP_READ \<longrightarrow>
    tjDecompressHeader3 e (tjHandle self) (info_data (map_info inbuf))
      (info_size (map_info inbuf)) = (rc, width, height, jpegSubsamp) \<longrightarrow>
    gst_buffer_map e
      (gst_buffer_append_memory gst_buffer_new
         (allocator_alloc e (tjBufSize e width height jpegSubsamp)))
      GST_MAP_WRITE \<longrightarrow>
    map (\<lambda>c. xf_op (fst c))
      (transform_calls
         (snd (gst_jpegtran_chain e (fst (gst_jpegtran_set_property self PROP_XOP v)) inbuf))) =
      [v]"
    by (simp add: gst_jpegtran_chain_def gst_jpegtran_set_property_def Let_def
        allocator_alloc_def tjtransform_zero_def)
  from init known getset used show ?thesis by blast
qed

text \<open>
  The sample run after setting rot180.
\<close>

theorem xop_property_roundtrip_witness:
  "gst_buffer_map sample_env jpeg_buf GST_MAP_READ \<and>
   tjDecompressHeader3 sample_env (tjHandle sample_filter) (info_data (map_info jpeg_buf))
     (info_size (map_info jpeg_buf)) = (0, 640, 480, 2) \<and>
   gst_buffer_map sample_env
     (gst_buffer_append_memory gst_buffer_new
        (allocator_alloc sample_env (tjBufSize sample_env 640 480 2)))
     GST_MAP_WRITE \<and>
   xop (fst (gst_jpegtran_init sample_env)) = TJXOP_NONE \<and>
   fst (gst_jpegtran_get_property
          (fst (gst_jpegtran_set_property sample_filter PROP_XOP TJXOP_ROT180)) PROP_XOP) =
     Some TJXOP_ROT180 \<and>
   map (\<lambda>c. xf_op (fst c))
     (transform_calls
        (snd (gst_jpegtran_chain sample_env
                (fst (gst_jpegtran_set_property sample_filter PROP_XOP TJXOP_ROT180)) jpeg_buf))) =
     [TJXOP_ROT180]"
proof -
  have m: "gst_buffer_map sample_env jpeg_buf GST_MAP_READ"
    by (simp add: sample_env_def)
  have h: "tjDecompressHeader3 sample_env (tjHandle sample_filter) (info_data (map_info jpeg_buf))
     (info_size (map_info jpeg_buf)) = (0, 640, 480, 2)"
    by (simp add: sample_defs map_info_def)
  have w: "gst_buffer_map sample_env
     (gst_buffer_append_memory gst_buffer_new
        (allocator_alloc sample_env (tjBufSize sample_env 640 480 2)))
     GST_MAP_WRITE"
    by (simp add: sample_env_def)
  show ?thesis
    using m h w xop_property_roundtrip [of sample_env TJXOP_ROT180 sample_filter jpeg_buf 0 640 480 2]
    by simp
qed




end
